theory Spec2Isabelle
  imports Complex_Main
begin

section \<open>Python values and failures\<close>

text \<open>
  Every exception the two modules can raise is a value: a function that may raise
  returns \<open>py_error + 'a\<close>, with \<open>Inl\<close> for the exception that aborts the render.
\<close>

datatype py_error = IndexError | KeyError | TypeError | ValueError

text \<open>
  Python's \<open>LookupError\<close> is the base class of \<open>IndexError\<close> and \<open>KeyError\<close>, the
  exceptions of a failed index or key lookup; \<open>TypeError\<close> and \<open>ValueError\<close> are not
  below it.
\<close>

fun lookup_error :: "py_error \<Rightarrow> bool" where
  "lookup_error IndexError = True"
| "lookup_error KeyError = True"
| "lookup_error TypeError = False"
| "lookup_error ValueError = False"

text \<open>Decimal rendering of a Python integer, as an f-string does it.\<close>

definition digit_char :: "nat \<Rightarrow> char" where
  "digit_char d = ''0123456789'' ! d"

fun str_nat :: "nat \<Rightarrow> string" where
  "str_nat n = (if n < 10 then [digit_char n] else str_nat (n div 10) @ [digit_char (n mod 10)])"

definition str_int :: "int \<Rightarrow> string" where
  "str_int i = (if i < 0 then CHR ''-'' # str_nat (nat (- i)) else str_nat (nat i))"

section \<open>ccan/plot\_both.py: gene track and accessibility peaks\<close>

subsection \<open>The two tables\<close>

text \<open>
  One row of \<open>GRCz11.csv\<close> (an exon) and one row of \<open>access.csv\<close> (a peak). The peak's
  columns are in the order \<open>plot_atac\<close> reads them by position: name, sample, start, end.
\<close>

record gene_row =
  gene_name :: string
  exon_start :: int
  exon_end :: int
  strand :: string

record atac_row =
  atac_gene_name :: string
  sample_id :: string
  atac_start :: int
  atac_end :: int

definition get_data :: "gene_row list \<Rightarrow> atac_row list \<Rightarrow> string \<Rightarrow> gene_row list \<times> atac_row list" where
  "get_data genes access option =
     (filter (\<lambda>r. gene_name r = option) genes, filter (\<lambda>r. atac_gene_name r = option) access)"

text \<open>
  A column's \<open>min()\<close> and \<open>max()\<close>: the data-frame library answers \<open>None\<close> on a column
  without rows.
\<close>

fun series_min :: "int list \<Rightarrow> int option" where
  "series_min [] = None"
| "series_min (v # vs) = Some (fold min vs v)"

fun series_max :: "int list \<Rightarrow> int option" where
  "series_max [] = None"
| "series_max (v # vs) = Some (fold max vs v)"

text \<open>
  The builtins \<open>min(a, b)\<close> and \<open>max(a, b)\<close> on two such answers: comparing with
  \<open>None\<close> raises \<open>TypeError\<close>.
\<close>

fun py_min :: "int option \<Rightarrow> int option \<Rightarrow> py_error + int" where
  "py_min (Some a) (Some b) = Inr (min a b)"
| "py_min _ _ = Inl TypeError"

fun py_max :: "int option \<Rightarrow> int option \<Rightarrow> py_error + int" where
  "py_max (Some a) (Some b) = Inr (max a b)"
| "py_max _ _ = Inl TypeError"

subsection \<open>plot\_genomic\_region\<close>

text \<open>\<open>list(range(start, end + 1, 5000))\<close>.\<close>

function chromosome_ticks :: "int \<Rightarrow> int \<Rightarrow> int list" where
  "chromosome_ticks start end =
     (if start < end + 1 then start # chromosome_ticks (start + 5000) end else [])"
  by pat_completeness auto
termination
  by (relation "measure (\<lambda>(s, e). nat (e + 1 - s))") auto

record tick_trace =
  tick_x :: int
  tick_text :: string

record region_fig =
  axis_line :: "int \<times> int"
  tick_traces :: "tick_trace list"
  xaxis_range :: "int \<times> int"
  tickvals :: "int list"
  ticktext :: "string list"

definition plot_genomic_region :: "int \<Rightarrow> int \<Rightarrow> region_fig" where
  "plot_genomic_region start end =
     \<lparr> axis_line = (start, end),
       tick_traces = map (\<lambda>tick. \<lparr> tick_x = tick, tick_text = str_int (tick div 1000) @ '' kbp'' \<rparr>)
                         (chromosome_ticks start end),
       xaxis_range = (start - 1, end + 1),
       tickvals = chromosome_ticks start end,
       ticktext = map (\<lambda>tick. str_int (tick div 1000)) (chromosome_ticks start end) \<rparr>"

subsection \<open>plot\_gene\<close>

text \<open>
  The annotation's \<open>x\<close> is where the arrow head points and \<open>ax\<close> where its tail starts.
  Reading \<open>gene_data['strand'][0]\<close> of a table without rows raises \<open>IndexError\<close>.
\<close>

record gene_track =
  gene_line :: "int \<times> int"
  exon_rects :: "(int \<times> int) list"
  exon_texts :: "string list"
  arrow :: int
  ax :: int

definition exon_text :: "int \<Rightarrow> int \<Rightarrow> string" where
  "exon_text x0 x1 = ''<b>Start:</b> '' @ str_int x0 @ ''<br><b>End:</b> '' @ str_int x1"

definition plot_gene :: "gene_row list \<Rightarrow> py_error + gene_track" where
  "plot_gene gene_data =
     (case gene_data of
        [] \<Rightarrow> Inl IndexError
      | first # rest \<Rightarrow>
          (let genomic_start = fold min (map exon_start rest) (exon_start first);
               genomic_end = fold max (map exon_end rest) (exon_end first)
           in Inr \<lparr> gene_line = (genomic_start, genomic_end),
                    exon_rects = map (\<lambda>r. (exon_start r, exon_end r)) gene_data,
                    exon_texts = map (\<lambda>r. exon_text (exon_start r) (exon_end r)) gene_data,
                    arrow = (if strand first = ''+'' then genomic_end else genomic_start),
                    ax = (if strand first = ''+'' then genomic_start else genomic_end) \<rparr>))"

subsection \<open>plot\_atac\<close>

definition heights :: "(string \<times> real) list" where
  "heights = [(''TDR126'', 0.20), (''TDR127'', 0.225), (''TDR128'', 0.25),
              (''TDR118'', 0.275), (''TDR125'', 0.30), (''TDR124'', 0.325)]"

definition timepoints :: "(string \<times> string) list" where
  "timepoints = [(''TDR126'', ''10 hours post fertilization''),
                 (''TDR127'', ''12 hours post fertilization''),
                 (''TDR128'', ''14 hours post fertilization''),
                 (''TDR118'', ''16 hours post fertilization''),
                 (''TDR125'', ''19 hours post fertilization''),
                 (''TDR124'', ''24 hours post fertilization'')]"

definition colors :: "(string \<times> string) list" where
  "colors = [(''TDR126'', ''#440154''), (''TDR127'', ''#414487''), (''TDR128'', ''#2A788E''),
             (''TDR118'', ''#22A884''), (''TDR125'', ''#7AD151''), (''TDR124'', ''#FDE725'')]"

text \<open>\<open>d[k]\<close> on a dictionary: \<open>KeyError\<close> when the key is absent.\<close>

definition getitem :: "('k \<times> 'v) list \<Rightarrow> 'k \<Rightarrow> py_error + 'v" where
  "getitem d k = (case map_of d k of None \<Rightarrow> Inl KeyError | Some v \<Rightarrow> Inr v)"

record peak_rect =
  peak_x0 :: int
  peak_x1 :: int
  peak_height :: real
  peak_color :: string
  peak_text :: string

definition plot_atac_row :: "atac_row \<Rightarrow> py_error + peak_rect" where
  "plot_atac_row row =
     (case getitem heights (sample_id row) of
        Inl e \<Rightarrow> Inl e
      | Inr height \<Rightarrow>
          (case getitem colors (sample_id row) of
             Inl e \<Rightarrow> Inl e
           | Inr color \<Rightarrow>
               (case getitem timepoints (sample_id row) of
                  Inl e \<Rightarrow> Inl e
                | Inr label \<Rightarrow>
                    Inr \<lparr> peak_x0 = atac_start row, peak_x1 = atac_end row,
                          peak_height = height, peak_color = color,
                          peak_text = ''<b>Sample:</b> '' @ label
                                      @ ''<br><b>Start:</b> '' @ str_int (atac_start row)
                                      @ ''<br><b>End:</b> '' @ str_int (atac_end row) @ ''<br>'' \<rparr>)))"

fun plot_atac :: "atac_row list \<Rightarrow> py_error + peak_rect list" where
  "plot_atac [] = Inr []"
| "plot_atac (row # rows) =
     (case plot_atac_row row of
        Inl e \<Rightarrow> Inl e
      | Inr p \<Rightarrow> (case plot_atac rows of Inl e \<Rightarrow> Inl e | Inr ps \<Rightarrow> Inr (p # ps)))"

subsection \<open>plot\_legend\<close>

definition plot_legend :: "string list" where
  "plot_legend = ''Transcription direction'' # ''Exon''
                 # map (\<lambda>(key, color). ''ATAC peak - '' @ the (map_of timepoints key)) colors"

subsection \<open>combined\_plot\<close>

record combined_fig =
  region :: region_fig
  track :: gene_track
  peaks :: "peak_rect list"
  legend :: "string list"

text \<open>
  The range is resolved first; each later step runs only when the ones before it
  returned. The layout updates that follow the four plotting steps set constants
  (autorange, the y-axis limits, the background) and are not part of the record.
\<close>

definition resolve_range :: "gene_row list \<Rightarrow> atac_row list \<Rightarrow> py_error + (int \<times> int)" where
  "resolve_range gene_data atac_data =
     (case py_min (series_min (map exon_start gene_data)) (series_min (map atac_start atac_data)) of
        Inl e \<Rightarrow> Inl e
      | Inr start \<Rightarrow>
          (case py_max (series_max (map exon_end gene_data)) (series_max (map atac_end atac_data)) of
             Inl e \<Rightarrow> Inl e
           | Inr end \<Rightarrow> Inr (start, end)))"

definition combined_plot :: "gene_row list \<Rightarrow> atac_row list \<Rightarrow> string \<Rightarrow> py_error + combined_fig" where
  "combined_plot genes access option =
     (case get_data genes access option of (gene_data, atac_data) \<Rightarrow>
        (case resolve_range gene_data atac_data of
           Inl e \<Rightarrow> Inl e
         | Inr (start, end) \<Rightarrow>
             (case plot_gene gene_data of
                Inl e \<Rightarrow> Inl e
              | Inr t \<Rightarrow>
                  (case plot_atac atac_data of
                     Inl e \<Rightarrow> Inl e
                   | Inr ps \<Rightarrow>
                       Inr \<lparr> region = plot_genomic_region start end, track = t,
                             peaks = ps, legend = plot_legend \<rparr>))))"

section \<open>corr/plot\_corr.py: the correlation grid\<close>

subsection \<open>Values\<close>

text \<open>
  Expression and accessibility values are modelled as real numbers, so arithmetic is
  exact; the rounding of binary floating point is outside this model. A correlation
  score is either the not-a-number sentinel \<open>np.nan\<close> or a number.
\<close>

datatype score = NaN | Finite real

type_synonym sample_data = "real list \<times> real list \<times> string list"

type_synonym gene_dict = "string \<rightharpoonup> (string \<rightharpoonup> sample_data)"

text \<open>\<open>np.all(v == v[0])\<close>: reading \<open>v[0]\<close> of an empty array raises \<open>IndexError\<close>.\<close>

definition all_equal_first :: "real list \<Rightarrow> py_error + bool" where
  "all_equal_first v = (case v of [] \<Rightarrow> Inl IndexError | v0 # _ \<Rightarrow> Inr (list_all (\<lambda>a. a = v0) v))"

text \<open>\<open>np.max(v)\<close>: raises \<open>ValueError\<close> on an empty array.\<close>

definition np_max :: "real list \<Rightarrow> py_error + real" where
  "np_max v = (case v of [] \<Rightarrow> Inl ValueError | v0 # vs \<Rightarrow> Inr (fold max vs v0))"

subsection \<open>The library's Pearson coefficient\<close>

text \<open>
  \<open>scipy.stats.pearsonr\<close> as its documentation defines it: the two inputs must have the
  same length, at least 2; a constant input gives not-a-number; otherwise
  \<open>r = \<Sum>(x - mx)(y - my) / sqrt (\<Sum>(x - mx)\<^sup>2 \<Sum>(y - my)\<^sup>2)\<close>.
\<close>

definition mean :: "real list \<Rightarrow> real" where
  "mean v = sum_list v / real (length v)"

definition centred :: "real list \<Rightarrow> real list" where
  "centred v = map (\<lambda>a. a - mean v) v"

definition dot :: "real list \<Rightarrow> real list \<Rightarrow> real" where
  "dot u v = sum_list (map2 (*) u v)"

definition pearson_r :: "real list \<Rightarrow> real list \<Rightarrow> real" where
  "pearson_r x y =
     dot (centred x) (centred y) / sqrt (dot (centred x) (centred x) * dot (centred y) (centred y))"

definition pearsonr :: "real list \<Rightarrow> real list \<Rightarrow> py_error + score" where
  "pearsonr x y =
     (if length x \<noteq> length y then Inl ValueError
      else if length x < 2 then Inl ValueError
      else if list_all (\<lambda>a. a = hd x) x \<or> list_all (\<lambda>a. a = hd y) y then Inr NaN
      else Inr (Finite (pearson_r x y)))"

subsection \<open>One timepoint's correlation\<close>

text \<open>The guard's \<open>or\<close> does not evaluate its second operand when the first holds.\<close>

definition correlation :: "real list \<Rightarrow> real list \<Rightarrow> py_error + score" where
  "correlation expr_rna expr_atac =
     (case all_equal_first expr_rna of
        Inl e \<Rightarrow> Inl e
      | Inr True \<Rightarrow> Inr NaN
      | Inr False \<Rightarrow>
          (case all_equal_first expr_atac of
             Inl e \<Rightarrow> Inl e
           | Inr True \<Rightarrow> Inr NaN
           | Inr False \<Rightarrow> pearsonr expr_rna expr_atac))"

subsection \<open>Colours and cell types\<close>

text \<open>
  \<open>{v: k for k, v in color_dict.items()}\<close>: the items are visited in order and a later
  item overwrites an earlier one with the same colour.
\<close>

definition inv_color_dict :: "(string \<times> string) list \<Rightarrow> (string \<rightharpoonup> string)" where
  "inv_color_dict color_dict = fold (\<lambda>(k, v) m. m(v \<mapsto> k)) color_dict Map.empty"

fun type_colors :: "(string \<rightharpoonup> string) \<Rightarrow> string list \<Rightarrow> py_error + string list" where
  "type_colors inv_colors [] = Inr []"
| "type_colors inv_colors (color # cs) =
     (case inv_colors color of
        None \<Rightarrow> Inl KeyError
      | Some t \<Rightarrow> (case type_colors inv_colors cs of Inl e \<Rightarrow> Inl e | Inr ts \<Rightarrow> Inr (t # ts)))"

text \<open>
  Modelled from the spec: \<open>define_color_dict\<close> of the module \<open>preprocess\<close> is not among
  the sources. The spec says of the palette it returns: a mapping between cell-type names
  and display colors, one color per cell type, injective. It is an argument of the model;
  this predicate says that it is a dictionary (no key twice) and injective (no color
  twice).
\<close>

definition palette :: "(string \<times> string) list \<Rightarrow> bool" where
  "palette color_dict \<longleftrightarrow> distinct (map fst color_dict) \<and> distinct (map snd color_dict)"

subsection \<open>plot\_genes\<close>

record scatter =
  scatter_x :: "real list"
  scatter_y :: "real list"
  marker_color :: "string list"
  scatter_text :: "string list"
  scatter_row :: nat
  scatter_col :: nat

record axis_update =
  axis_row :: nat
  axis_col :: nat
  axis_range :: "real \<times> real"

record loop_state =
  corr_scores :: "score list"
  rna_max :: real
  atac_max :: real
  traces :: "scatter list"

record corr_fig =
  scatters :: "scatter list"
  titles :: "(string \<times> score) list"
  xaxes :: "axis_update list"
  yaxes :: "axis_update list"

text \<open>\<open>gene_dict[gene][sample_id]\<close>: either lookup raises \<open>KeyError\<close> on a missing key.\<close>

definition lookup_sample :: "gene_dict \<Rightarrow> string \<Rightarrow> string \<Rightarrow> py_error + sample_data" where
  "lookup_sample gd gene sid =
     (case gd gene of
        None \<Rightarrow> Inl KeyError
      | Some samples \<Rightarrow> (case samples sid of None \<Rightarrow> Inl KeyError | Some d \<Rightarrow> Inr d))"

text \<open>One pass of the loop over the timepoints, for list-index \<open>index\<close>.\<close>

definition loop_body ::
  "(string \<times> string) list \<Rightarrow> gene_dict \<Rightarrow> string \<Rightarrow> nat \<Rightarrow> string \<Rightarrow> loop_state \<Rightarrow> py_error + loop_state" where
  "loop_body color_dict gd gene index sid st =
     (case lookup_sample gd gene sid of
        Inl e \<Rightarrow> Inl e
      | Inr (expr_rna, expr_atac, cols) \<Rightarrow>
          (case correlation expr_rna expr_atac of
             Inl e \<Rightarrow> Inl e
           | Inr c \<Rightarrow>
               (case type_colors (inv_color_dict color_dict) cols of
                  Inl e \<Rightarrow> Inl e
                | Inr tc \<Rightarrow>
                    (case np_max expr_rna of
                       Inl e \<Rightarrow> Inl e
                     | Inr mr \<Rightarrow>
                         (case np_max expr_atac of
                            Inl e \<Rightarrow> Inl e
                          | Inr ma \<Rightarrow>
                              Inr \<lparr> corr_scores = corr_scores st @ [c],
                                    rna_max = (if mr > rna_max st then mr else rna_max st),
                                    atac_max = (if ma > atac_max st then ma else atac_max st),
                                    traces = traces st @
                                      [\<lparr> scatter_x = expr_atac, scatter_y = expr_rna,
                                         marker_color = cols, scatter_text = tc,
                                         scatter_row = index div 3 + 1,
                                         scatter_col = index mod 3 + 1 \<rparr>] \<rparr>)))))"

text \<open>\<open>for index, sample_id in enumerate(...)\<close>, from list-index \<open>index\<close> on.\<close>

fun loop ::
  "(string \<times> string) list \<Rightarrow> gene_dict \<Rightarrow> string \<Rightarrow> nat \<Rightarrow> string list \<Rightarrow> loop_state \<Rightarrow> py_error + loop_state" where
  "loop color_dict gd gene index [] st = Inr st"
| "loop color_dict gd gene index (sid # sids) st =
     (case loop_body color_dict gd gene index sid st of
        Inl e \<Rightarrow> Inl e
      | Inr st' \<Rightarrow> loop color_dict gd gene (Suc index) sids st')"

definition init_state :: loop_state where
  "init_state = \<lparr> corr_scores = [], rna_max = 0, atac_max = 0, traces = [] \<rparr>"

definition plot_genes :: "(string \<times> string) list \<Rightarrow> string \<Rightarrow> gene_dict \<Rightarrow> py_error + corr_fig" where
  "plot_genes color_dict gene gd =
     (case loop color_dict gd gene 0 (map fst timepoints) init_state of
        Inl e \<Rightarrow> Inl e
      | Inr st \<Rightarrow>
          Inr \<lparr> scatters = traces st,
                titles = zip (map snd timepoints) (corr_scores st),
                xaxes = map (\<lambda>i. \<lparr> axis_row = i div 3 + 1, axis_col = i mod 3 + 1,
                                    axis_range = (0, atac_max st) \<rparr>) [0 ..< length (corr_scores st)],
                yaxes = map (\<lambda>i. \<lparr> axis_row = i div 3 + 1, axis_col = i mod 3 + 1,
                                    axis_range = (0, rna_max st) \<rparr>) [0 ..< length (corr_scores st)] \<rparr>)"

subsection \<open>The values the grid's shared axes are compared with\<close>

text \<open>
  All accessibility values, and all expression values, that the gene's samples hold at
  the given sample identifiers, in order; a sample that is missing contributes none.
\<close>

definition sample_rna :: "gene_dict \<Rightarrow> string \<Rightarrow> string \<Rightarrow> real list" where
  "sample_rna gd gene sid =
     (case lookup_sample gd gene sid of Inl e \<Rightarrow> [] | Inr (expr_rna, expr_atac, cols) \<Rightarrow> expr_rna)"

definition sample_atac :: "gene_dict \<Rightarrow> string \<Rightarrow> string \<Rightarrow> real list" where
  "sample_atac gd gene sid =
     (case lookup_sample gd gene sid of Inl e \<Rightarrow> [] | Inr (expr_rna, expr_atac, cols) \<Rightarrow> expr_atac)"

definition global_rna_values :: "gene_dict \<Rightarrow> string \<Rightarrow> real list" where
  "global_rna_values gd gene = concat (map (sample_rna gd gene) (map fst timepoints))"

definition global_atac_values :: "gene_dict \<Rightarrow> string \<Rightarrow> real list" where
  "global_atac_values gd gene = concat (map (sample_atac gd gene) (map fst timepoints))"

section \<open>Properties of the gene track\<close>

subsection \<open>Columns and ticks\<close>

declare chromosome_ticks.simps [simp del]

lemma fold_min_Min: "fold min vs (v::int) = Min (set (v # vs))"
  by (rule Min.set_eq_fold [symmetric])

lemma fold_max_Max: "fold max vs (v::int) = Max (set (v # vs))"
  by (rule Max.set_eq_fold [symmetric])

lemma series_min_Some: "vs \<noteq> [] \<Longrightarrow> series_min vs = Some (Min (set vs))"
  by (cases vs) (simp_all add: fold_min_Min del: set_simps)

lemma series_max_Some: "vs \<noteq> [] \<Longrightarrow> series_max vs = Some (Max (set vs))"
  by (cases vs) (simp_all add: fold_max_Max del: set_simps)

lemma ticks_member:
  "t \<in> set (chromosome_ticks s e) \<Longrightarrow> s \<le> t \<and> t \<le> e \<and> (t - s) mod 5000 = 0"
proof (induction s e rule: chromosome_ticks.induct)
  case (1 s e)
  show ?case
  proof (cases "s < e + 1")
    case True
    with "1.prems" have "t = s \<or> t \<in> set (chromosome_ticks (s + 5000) e)"
      by (subst (asm) chromosome_ticks.simps) simp
    then show ?thesis
    proof
      assume "t = s"
      with True show ?thesis by simp
    next
      assume "t \<in> set (chromosome_ticks (s + 5000) e)"
      with "1.IH" True have "s + 5000 \<le> t \<and> t \<le> e \<and> (t - (s + 5000)) mod 5000 = 0"
        by simp
      moreover have "(t - s) mod 5000 = (t - s - 5000) mod 5000"
        by (simp only: minus_mod_self2)
      moreover have "t - s - 5000 = t - (s + 5000)" by simp
      ultimately show ?thesis by simp
    qed
  next
    case False
    with "1.prems" show ?thesis
      by (subst (asm) chromosome_ticks.simps) simp
  qed
qed

lemma ticks_head: "s \<le> e \<Longrightarrow> chromosome_ticks s e = s # chromosome_ticks (s + 5000) e"
  by (subst chromosome_ticks.simps) simp

lemma ticks_empty: "e < s \<Longrightarrow> chromosome_ticks s e = []"
  by (subst chromosome_ticks.simps) simp


lemma ticks_closed_form:
  "s \<le> e \<Longrightarrow> chromosome_ticks s e = map (\<lambda>k. s + 5000 * int k) [0 ..< nat ((e - s) div 5000 + 1)]"
proof (induction s e rule: chromosome_ticks.induct)
  case (1 s e)
  show ?case
  proof (cases "s + 5000 \<le> e")
    case True
    have "e - s = (e - (s + 5000)) + 5000" by simp
    then have "(e - s) div 5000 = (e - (s + 5000)) div 5000 + 1"
      by (simp only: div_add_self2)
    moreover have "0 \<le> (e - (s + 5000)) div 5000"
      using True by simp
    ultimately have n: "nat ((e - s) div 5000 + 1) = Suc (nat ((e - (s + 5000)) div 5000 + 1))"
      by simp
    have "chromosome_ticks s e = s # chromosome_ticks (s + 5000) e"
      using "1.prems" by (rule ticks_head)
    also have "chromosome_ticks (s + 5000) e
                = map (\<lambda>k. (s + 5000) + 5000 * int k) [0 ..< nat ((e - (s + 5000)) div 5000 + 1)]"
      using "1.IH" "1.prems" True by simp
    also have "s # \<dots> = map (\<lambda>k. s + 5000 * int k) [0 ..< nat ((e - s) div 5000 + 1)]"
      unfolding n by (simp add: upt_conv_Cons map_Suc_upt [symmetric] del: upt_Suc)
    finally show ?thesis .
  next
    case False
    with "1.prems" have "(e - s) div 5000 = 0" by simp
    with "1.prems" False show ?thesis
      by (simp add: ticks_head ticks_empty)
  qed
qed

lemma tickvals_eq: "tickvals (plot_genomic_region s e) = chromosome_ticks s e"
  by (simp add: plot_genomic_region_def)

text \<open>
  C5 (axis tick generation). For a range with \<open>start \<le> end\<close>: every tick lies in
  \<open>[start, end]\<close> at a multiple of 5000 from \<open>start\<close>; \<open>start\<close> itself is a tick, so
  the ticks are never empty; the ticks are exactly \<open>start, start + 5000, \<dots>\<close> up to
  \<open>end\<close>; a range shorter than 5000 has the single tick \<open>start\<close>; the axis label of a
  tick is its position floor-divided by 1000, and the hover text is that label followed
  by \<open>kbp\<close>. The function returns a figure for every input, so it cannot fail.
\<close>

theorem tick_generation:
  assumes "start \<le> end"
  shows "(\<forall>t \<in> set (tickvals (plot_genomic_region start end)).
            start \<le> t \<and> t \<le> end \<and> (t - start) mod 5000 = 0)
       \<and> start \<in> set (tickvals (plot_genomic_region start end))
       \<and> tickvals (plot_genomic_region start end)
           = map (\<lambda>k. start + 5000 * int k) [0 ..< nat ((end - start) div 5000 + 1)]
       \<and> (end - start < 5000 \<longrightarrow> tickvals (plot_genomic_region start end) = [start])
       \<and> ticktext (plot_genomic_region start end)
           = map (\<lambda>t. str_int (t div 1000)) (tickvals (plot_genomic_region start end))
       \<and> map tick_x (tick_traces (plot_genomic_region start end))
           = tickvals (plot_genomic_region start end)
       \<and> map tick_text (tick_traces (plot_genomic_region start end))
           = map (\<lambda>t. str_int (t div 1000) @ '' kbp'') (tickvals (plot_genomic_region start end))"
proof -
  have bounds: "\<forall>t \<in> set (chromosome_ticks start end).
                  start \<le> t \<and> t \<le> end \<and> (t - start) mod 5000 = 0"
    using ticks_member by blast
  have member: "start \<in> set (chromosome_ticks start end)"
    using assms by (simp add: ticks_head)
  have closed: "chromosome_ticks start end
                 = map (\<lambda>k. start + 5000 * int k) [0 ..< nat ((end - start) div 5000 + 1)]"
    using assms by (rule ticks_closed_form)
  have single: "end - start < 5000 \<longrightarrow> chromosome_ticks start end = [start]"
    using assms by (simp add: ticks_head ticks_empty)
  have texts: "ticktext (plot_genomic_region start end)
                = map (\<lambda>t. str_int (t div 1000)) (chromosome_ticks start end)"
    by (simp add: plot_genomic_region_def)
  have xs: "map tick_x (tick_traces (plot_genomic_region start end)) = chromosome_ticks start end"
    by (simp add: plot_genomic_region_def comp_def)
  have hover: "map tick_text (tick_traces (plot_genomic_region start end))
                = map (\<lambda>t. str_int (t div 1000) @ '' kbp'') (chromosome_ticks start end)"
    by (simp add: plot_genomic_region_def comp_def)
  show ?thesis
    unfolding tickvals_eq using bounds member closed single texts xs hover by blast
qed

theorem tick_generation_witness:
  "(1000::int) \<le> 12000 \<and> (100::int) \<le> 400 \<and> (400::int) - 100 < 5000
   \<and> tickvals (plot_genomic_region 1000 12000) = [1000, 6000, 11000]
   \<and> ticktext (plot_genomic_region 1000 12000) = [''1'', ''6'', ''11'']
   \<and> map tick_text (tick_traces (plot_genomic_region 1000 12000)) = [''1 kbp'', ''6 kbp'', ''11 kbp'']
   \<and> tickvals (plot_genomic_region 100 400) = [100]
   \<and> ticktext (plot_genomic_region 100 400) = [''0'']"
proof -
  have a: "(1000::int) \<le> 12000" and b: "(100::int) \<le> 400" by simp_all
  have n: "[0 ..< (3::nat)] = [0, 1, 2]"
    by (simp add: numeral_3_eq_3)
  show ?thesis
    using tick_generation [OF a] tick_generation [OF b]
    by (simp add: n str_int_def digit_char_def)
qed

subsection \<open>Range, failure and arrow\<close>

lemma resolve_range_Inr:
  assumes "gene_data \<noteq> []" "atac_data \<noteq> []"
  shows "resolve_range gene_data atac_data =
           Inr (min (Min (exon_start ` set gene_data)) (Min (atac_start ` set atac_data)),
                max (Max (exon_end ` set gene_data)) (Max (atac_end ` set atac_data)))"
  using assms by (simp add: resolve_range_def series_min_Some series_max_Some)

lemma resolve_range_Inl:
  assumes "gene_data = [] \<or> atac_data = []"
  shows "resolve_range gene_data atac_data = Inl TypeError"
proof (cases "gene_data = []")
  case True
  then show ?thesis by (simp add: resolve_range_def)
next
  case False
  with assms have "atac_data = []" by simp
  moreover from False obtain v where "series_min (map exon_start gene_data) = Some v"
    by (cases gene_data) simp_all
  ultimately show ?thesis by (simp add: resolve_range_def)
qed

text \<open>
  C2 (genomic range resolution). For a gene with at least one exon row and at least one
  peak row, the resolved range is the minimum over both tables' start columns and the
  maximum over both tables' end columns, and that range is the axis line of every figure
  \<open>combined_plot\<close> returns for the gene.
\<close>

theorem display_range:
  assumes "get_data genes access option = (gene_data, atac_data)"
    and "gene_data \<noteq> []" and "atac_data \<noteq> []"
  shows "resolve_range gene_data atac_data =
           Inr (min (Min (exon_start ` set gene_data)) (Min (atac_start ` set atac_data)),
                max (Max (exon_end ` set gene_data)) (Max (atac_end ` set atac_data)))
       \<and> (\<forall>fig. combined_plot genes access option = Inr fig \<longrightarrow>
             axis_line (region fig) =
               (min (Min (exon_start ` set gene_data)) (Min (atac_start ` set atac_data)),
                max (Max (exon_end ` set gene_data)) (Max (atac_end ` set atac_data))))"
proof -
  note r = resolve_range_Inr [OF assms(2) assms(3)]
  have "axis_line (region fig) =
               (min (Min (exon_start ` set gene_data)) (Min (atac_start ` set atac_data)),
                max (Max (exon_end ` set gene_data)) (Max (atac_end ` set atac_data)))"
    if "combined_plot genes access option = Inr fig" for fig
    using that assms(1) r
    by (auto simp: combined_plot_def plot_genomic_region_def split: sum.splits)
  with r show ?thesis by blast
qed

theorem display_range_witness:
  "resolve_range
     [\<lparr>gene_name = ''slc4a1a'', exon_start = 100, exon_end = 200, strand = ''+''\<rparr>,
      \<lparr>gene_name = ''slc4a1a'', exon_start = 300, exon_end = 400, strand = ''+''\<rparr>]
     [\<lparr>atac_gene_name = ''slc4a1a'', sample_id = ''TDR126'', atac_start = 150, atac_end = 350\<rparr>]
   = Inr (100, 400)
   \<and> (\<exists>fig. combined_plot
          [\<lparr>gene_name = ''slc4a1a'', exon_start = 100, exon_end = 200, strand = ''+''\<rparr>,
           \<lparr>gene_name = ''other'', exon_start = 5, exon_end = 900, strand = ''-''\<rparr>,
           \<lparr>gene_name = ''slc4a1a'', exon_start = 300, exon_end = 400, strand = ''+''\<rparr>]
          [\<lparr>atac_gene_name = ''slc4a1a'', sample_id = ''TDR126'', atac_start = 150, atac_end = 350\<rparr>]
          ''slc4a1a'' = Inr fig \<and> axis_line (region fig) = (100, 400))"
proof -
  let ?genes = "[\<lparr>gene_name = ''slc4a1a'', exon_start = 100, exon_end = 200, strand = ''+''\<rparr>,
      \<lparr>gene_name = ''other'', exon_start = 5, exon_end = 900, strand = ''-''\<rparr>,
      \<lparr>gene_name = ''slc4a1a'', exon_start = 300, exon_end = 400, strand = ''+''\<rparr>]"
  let ?access = "[\<lparr>atac_gene_name = ''slc4a1a'', sample_id = ''TDR126'', atac_start = 150, atac_end = 350\<rparr>]"
  let ?gd = "[\<lparr>gene_name = ''slc4a1a'', exon_start = 100, exon_end = 200, strand = ''+''\<rparr>,
      \<lparr>gene_name = ''slc4a1a'', exon_start = 300, exon_end = 400, strand = ''+''\<rparr>]"
  have g: "get_data ?genes ?access ''slc4a1a'' = (?gd, ?access)"
    by (simp add: get_data_def)
  have n1: "?gd \<noteq> []" and n2: "?access \<noteq> []" by simp_all
  have ok: "\<exists>fig. combined_plot ?genes ?access ''slc4a1a'' = Inr fig"
    by (simp add: combined_plot_def g resolve_range_def plot_gene_def plot_atac_row_def
        getitem_def heights_def colors_def timepoints_def)
  show ?thesis
    using display_range [OF g n1 n2] ok by auto
qed

text \<open>
  C7 (gene not found), as amended. When the exon table or the peak table has no row for
  the gene, range resolution returns no range: an empty column answers \<open>None\<close>,
  comparing with \<open>None\<close> in \<open>min\<close> raises \<open>TypeError\<close>, and that uncaught exception
  aborts \<open>combined_plot\<close> before anything is drawn. The failure is this
  \<open>TypeError\<close>; the code has no test for an empty table and no condition of its own
  for a gene that is not found.
\<close>

theorem gene_not_found:
  assumes "get_data genes access option = (gene_data, atac_data)"
    and "gene_data = [] \<or> atac_data = []"
  shows "resolve_range gene_data atac_data = Inl TypeError
       \<and> combined_plot genes access option = Inl TypeError"
  using assms(1) resolve_range_Inl [OF assms(2)]
  by (simp add: combined_plot_def)

theorem gene_not_found_witness:
  "combined_plot
     [\<lparr>gene_name = ''slc4a1a'', exon_start = 100, exon_end = 200, strand = ''+''\<rparr>]
     [\<lparr>atac_gene_name = ''slc4a1a'', sample_id = ''TDR126'', atac_start = 150, atac_end = 350\<rparr>]
     ''tbx16'' = Inl TypeError
   \<and> combined_plot
     [\<lparr>gene_name = ''slc4a1a'', exon_start = 100, exon_end = 200, strand = ''+''\<rparr>]
     [\<lparr>atac_gene_name = ''tbx16'', sample_id = ''TDR126'', atac_start = 150, atac_end = 350\<rparr>]
     ''slc4a1a'' = Inl TypeError"
proof -
  let ?genes = "[\<lparr>gene_name = ''slc4a1a'', exon_start = 100, exon_end = 200, strand = ''+''\<rparr>]"
  let ?a1 = "[\<lparr>atac_gene_name = ''slc4a1a'', sample_id = ''TDR126'', atac_start = 150, atac_end = 350\<rparr>]"
  let ?a2 = "[\<lparr>atac_gene_name = ''tbx16'', sample_id = ''TDR126'', atac_start = 150, atac_end = 350\<rparr>]"
  have g1: "get_data ?genes ?a1 ''tbx16'' = ([], [])"
    by (simp add: get_data_def)
  have g2: "get_data ?genes ?a2 ''slc4a1a'' = (?genes, [])"
    by (simp add: get_data_def)
  have e1: "([]::gene_row list) = [] \<or> ([]::atac_row list) = []" by simp
  have e2: "?genes = [] \<or> ([]::atac_row list) = []" by simp
  show ?thesis
    using gene_not_found [OF g1 e1] gene_not_found [OF g2 e2] by simp
qed

text \<open>
  C7 as stated fails on the kind of failure: for a gene with a peak but no exon row the
  render aborts with \<open>TypeError\<close>, which is not a lookup error, and no step of
  \<open>combined_plot\<close> tests for an empty table or names the missing gene.
\<close>

theorem gene_not_found_counterexample:
  "combined_plot
     [\<lparr>gene_name = ''slc4a1a'', exon_start = 100, exon_end = 200, strand = ''+''\<rparr>]
     [\<lparr>atac_gene_name = ''tbx16'', sample_id = ''TDR126'', atac_start = 150, atac_end = 350\<rparr>]
     ''tbx16'' = Inl TypeError
   \<and> map_sum lookup_error id
       (combined_plot
          [\<lparr>gene_name = ''slc4a1a'', exon_start = 100, exon_end = 200, strand = ''+''\<rparr>]
          [\<lparr>atac_gene_name = ''tbx16'', sample_id = ''TDR126'', atac_start = 150, atac_end = 350\<rparr>]
          ''tbx16'') = Inl False"
  by (simp add: combined_plot_def get_data_def resolve_range_def)

lemma plot_gene_Cons:
  "plot_gene (first # rest) =
     Inr \<lparr> gene_line = (Min (exon_start ` set (first # rest)), Max (exon_end ` set (first # rest))),
           exon_rects = map (\<lambda>r. (exon_start r, exon_end r)) (first # rest),
           exon_texts = map (\<lambda>r. exon_text (exon_start r) (exon_end r)) (first # rest),
           arrow = (if strand first = ''+'' then Max (exon_end ` set (first # rest))
                    else Min (exon_start ` set (first # rest))),
           ax = (if strand first = ''+'' then Min (exon_start ` set (first # rest))
                 else Max (exon_end ` set (first # rest))) \<rparr>"
proof -
  have a: "fold min (map exon_start rest) (exon_start first) = Min (exon_start ` set (first # rest))"
    by (simp add: fold_min_Min del: set_simps) simp
  have b: "fold max (map exon_end rest) (exon_end first) = Max (exon_end ` set (first # rest))"
    by (simp add: fold_max_Max del: set_simps) simp
  show ?thesis
    unfolding plot_gene_def list.case Let_def a b by simp
qed

text \<open>
  C4 (strand arrow direction). The arrow spans the gene's extent, from the minimum exon
  start to the maximum exon end. With strand \<open>+\<close> in the first row its tail \<open>ax\<close> is the
  gene start and its head \<open>arrow\<close> the gene end; with strand \<open>-\<close> over the same
  coordinates tail and head are exchanged.
\<close>

theorem strand_arrow_direction:
  "map_sum id (\<lambda>t. (ax t, arrow t)) (plot_gene (first\<lparr>strand := ''+''\<rparr> # rest))
     = Inr (Min (exon_start ` set (first # rest)), Max (exon_end ` set (first # rest)))
   \<and> map_sum id (\<lambda>t. (ax t, arrow t)) (plot_gene (first\<lparr>strand := ''-''\<rparr> # rest))
     = Inr (Max (exon_end ` set (first # rest)), Min (exon_start ` set (first # rest)))
   \<and> map_sum id gene_line (plot_gene (first\<lparr>strand := ''+''\<rparr> # rest))
     = Inr (Min (exon_start ` set (first # rest)), Max (exon_end ` set (first # rest)))
   \<and> map_sum id gene_line (plot_gene (first\<lparr>strand := ''-''\<rparr> # rest))
     = Inr (Min (exon_start ` set (first # rest)), Max (exon_end ` set (first # rest)))"
  by (simp add: plot_gene_Cons)

theorem strand_arrow_direction_witness:
  "map_sum id (\<lambda>t. (ax t, arrow t))
     (plot_gene [\<lparr>gene_name = ''slc4a1a'', exon_start = 300, exon_end = 400, strand = ''+''\<rparr>,
                 \<lparr>gene_name = ''slc4a1a'', exon_start = 100, exon_end = 200, strand = ''+''\<rparr>])
     = Inr (100, 400)
   \<and> map_sum id (\<lambda>t. (ax t, arrow t))
     (plot_gene [\<lparr>gene_name = ''slc4a1a'', exon_start = 300, exon_end = 400, strand = ''-''\<rparr>,
                 \<lparr>gene_name = ''slc4a1a'', exon_start = 100, exon_end = 200, strand = ''+''\<rparr>])
     = Inr (400, 100)"
  using strand_arrow_direction
    [of "\<lparr>gene_name = ''slc4a1a'', exon_start = 300, exon_end = 400, strand = ''+''\<rparr>"
        "[\<lparr>gene_name = ''slc4a1a'', exon_start = 100, exon_end = 200, strand = ''+''\<rparr>]"]
  by simp

text \<open>
  C10 (strand of the first row, unvalidated). Whatever the first row's strand is, if it
  is not exactly \<open>+\<close> the arrow has its head at the gene start and its tail at the gene
  end, and the function returns; replacing the rows after the first by rows with the same
  coordinates and any strands leaves the result unchanged.
\<close>

theorem strand_first_row_only:
  assumes "strand first \<noteq> ''+''"
    and "map (\<lambda>r. (exon_start r, exon_end r)) rest' = map (\<lambda>r. (exon_start r, exon_end r)) rest"
  shows "map_sum id (\<lambda>t. (ax t, arrow t)) (plot_gene (first # rest))
           = Inr (Max (exon_end ` set (first # rest)), Min (exon_start ` set (first # rest)))
       \<and> plot_gene (first # rest') = plot_gene (first # rest)"
proof -
  have "map fst (map (\<lambda>r. (exon_start r, exon_end r)) rest')
        = map fst (map (\<lambda>r. (exon_start r, exon_end r)) rest)"
    using assms(2) by simp
  then have s: "map exon_start rest' = map exon_start rest"
    by (simp add: comp_def)
  have "map snd (map (\<lambda>r. (exon_start r, exon_end r)) rest')
        = map snd (map (\<lambda>r. (exon_start r, exon_end r)) rest)"
    using assms(2) by simp
  then have e: "map exon_end rest' = map exon_end rest"
    by (simp add: comp_def)
  have "map (\<lambda>(a, b). exon_text a b) (map (\<lambda>r. (exon_start r, exon_end r)) rest')
        = map (\<lambda>(a, b). exon_text a b) (map (\<lambda>r. (exon_start r, exon_end r)) rest)"
    using assms(2) by simp
  then have t: "map (\<lambda>r. exon_text (exon_start r) (exon_end r)) rest'
              = map (\<lambda>r. exon_text (exon_start r) (exon_end r)) rest"
    by (simp add: comp_def)
  have same: "plot_gene (first # rest') = plot_gene (first # rest)"
    unfolding plot_gene_def list.case Let_def by (simp add: s e t assms(2))
  from assms(1) same show ?thesis
    by (simp add: plot_gene_Cons)
qed

theorem strand_first_row_only_witness:
  "plot_gene [\<lparr>gene_name = ''g'', exon_start = 300, exon_end = 400, strand = ''''\<rparr>,
              \<lparr>gene_name = ''g'', exon_start = 100, exon_end = 200, strand = ''+''\<rparr>]
   = plot_gene [\<lparr>gene_name = ''g'', exon_start = 300, exon_end = 400, strand = ''''\<rparr>,
                \<lparr>gene_name = ''g'', exon_start = 100, exon_end = 200, strand = ''-''\<rparr>]
   \<and> map_sum id (\<lambda>t. (ax t, arrow t))
        (plot_gene [\<lparr>gene_name = ''g'', exon_start = 300, exon_end = 400, strand = ''''\<rparr>,
                    \<lparr>gene_name = ''g'', exon_start = 100, exon_end = 200, strand = ''-''\<rparr>])
      = Inr (400, 100)"
proof -
  let ?first = "\<lparr>gene_name = ''g'', exon_start = 300, exon_end = 400, strand = ''''\<rparr>"
  let ?rest = "[\<lparr>gene_name = ''g'', exon_start = 100, exon_end = 200, strand = ''-''\<rparr>]"
  let ?rest' = "[\<lparr>gene_name = ''g'', exon_start = 100, exon_end = 200, strand = ''+''\<rparr>]"
  have a: "strand ?first \<noteq> ''+''" by simp
  have b: "map (\<lambda>r. (exon_start r, exon_end r)) ?rest' = map (\<lambda>r. (exon_start r, exon_end r)) ?rest"
    by simp
  show ?thesis
    using strand_first_row_only [OF a b] by simp
qed

section \<open>Properties of the correlation grid\<close>

subsection \<open>The loop over the timepoints\<close>

lemma np_max_Inr: "np_max v = Inr m \<Longrightarrow> v \<noteq> [] \<and> m = Max (set v)"
  by (cases v) (simp_all add: np_max_def Max.set_eq_fold [symmetric] del: set_simps)

lemma update_max: "(if (b::real) > a then b else a) = max a b"
  by (simp add: max_def)

lemma loop_body_Inr:
  assumes "loop_body cd gd gene i sid st = Inr st'"
  obtains r a c sc tc where
    "lookup_sample gd gene sid = Inr (r, a, c)" "correlation r a = Inr sc"
    "type_colors (inv_color_dict cd) c = Inr tc" "r \<noteq> []" "a \<noteq> []"
    "st' = \<lparr> corr_scores = corr_scores st @ [sc],
             rna_max = max (rna_max st) (Max (set r)),
             atac_max = max (atac_max st) (Max (set a)),
             traces = traces st @
               [\<lparr> scatter_x = a, scatter_y = r, marker_color = c, scatter_text = tc,
                  scatter_row = i div 3 + 1, scatter_col = i mod 3 + 1 \<rparr>] \<rparr>"
proof -
  from assms obtain r a c where l: "lookup_sample gd gene sid = Inr (r, a, c)"
    by (auto simp: loop_body_def split: sum.splits)
  with assms obtain sc where k: "correlation r a = Inr sc"
    by (auto simp: loop_body_def split: sum.splits)
  with assms l obtain tc where t: "type_colors (inv_color_dict cd) c = Inr tc"
    by (auto simp: loop_body_def split: sum.splits)
  with assms l k obtain mr where mr: "np_max r = Inr mr"
    by (auto simp: loop_body_def split: sum.splits)
  with assms l k t obtain ma where ma: "np_max a = Inr ma"
    by (auto simp: loop_body_def split: sum.splits)
  from mr ma have ne: "r \<noteq> []" "a \<noteq> []" and m: "mr = Max (set r)" "ma = Max (set a)"
    by (auto dest: np_max_Inr)
  from assms have "st' = \<lparr> corr_scores = corr_scores st @ [sc],
             rna_max = max (rna_max st) (Max (set r)),
             atac_max = max (atac_max st) (Max (set a)),
             traces = traces st @
               [\<lparr> scatter_x = a, scatter_y = r, marker_color = c, scatter_text = tc,
                  scatter_row = i div 3 + 1, scatter_col = i mod 3 + 1 \<rparr>] \<rparr>"
    by (simp add: loop_body_def l k t mr ma update_max m)
  with l k t ne show thesis by (rule that)
qed

lemma sample_values:
  assumes "lookup_sample gd gene sid = Inr (r, a, c)"
  shows "sample_rna gd gene sid = r" "sample_atac gd gene sid = a"
  using assms by (simp_all add: sample_rna_def sample_atac_def)

lemma Max_insert_max:
  fixes m :: real
  assumes "a \<noteq> []"
  shows "Max (insert (max m (Max (set a))) (set vs)) = Max (insert m (set (a @ vs)))"
proof -
  have "Max (insert m (set (a @ vs))) = Max (({m} \<union> set a) \<union> set vs)"
    by (simp add: Un_commute Un_left_commute)
  show ?thesis
  proof (cases "vs = []")
    case True
    with assms show ?thesis by (simp add: max.commute)
  next
    case False
    with assms show ?thesis
      by (simp add: Max_Un max.assoc max.commute max.left_commute)
  qed
qed

lemma loop_invariant:
  assumes "loop cd gd gene i sids st = Inr st'"
  shows "map (\<lambda>s. (scatter_row s, scatter_col s)) (traces st')
           = map (\<lambda>s. (scatter_row s, scatter_col s)) (traces st)
             @ map (\<lambda>j. (j div 3 + 1, j mod 3 + 1)) [i ..< i + length sids]
       \<and> map (\<lambda>s. Inr (scatter_y s, scatter_x s, marker_color s)) (traces st')
           = map (\<lambda>s. Inr (scatter_y s, scatter_x s, marker_color s)) (traces st)
             @ map (lookup_sample gd gene) sids
       \<and> length (corr_scores st') = length (corr_scores st) + length sids
       \<and> rna_max st' = Max (insert (rna_max st) (set (concat (map (sample_rna gd gene) sids))))
       \<and> atac_max st' = Max (insert (atac_max st) (set (concat (map (sample_atac gd gene) sids))))
       \<and> list_all (\<lambda>sid. sample_rna gd gene sid \<noteq> [] \<and> sample_atac gd gene sid \<noteq> []) sids"
  using assms
proof (induction sids arbitrary: i st)
  case Nil
  then show ?case by simp
next
  case (Cons sid sids)
  from Cons.prems obtain st1 where b: "loop_body cd gd gene i sid st = Inr st1"
    and l: "loop cd gd gene (Suc i) sids st1 = Inr st'"
    by (auto split: sum.splits)
  from b obtain r a c sc tc where s: "lookup_sample gd gene sid = Inr (r, a, c)"
    and ne: "r \<noteq> []" "a \<noteq> []"
    and st1: "st1 = \<lparr> corr_scores = corr_scores st @ [sc],
           rna_max = max (rna_max st) (Max (set r)),
           atac_max = max (atac_max st) (Max (set a)),
           traces = traces st @
             [\<lparr> scatter_x = a, scatter_y = r, marker_color = c, scatter_text = tc,
                scatter_row = i div 3 + 1, scatter_col = i mod 3 + 1 \<rparr>] \<rparr>"
    by (rule loop_body_Inr)
  note ih = Cons.IH [OF l]
  have p1: "map (\<lambda>s. (scatter_row s, scatter_col s)) (traces st')
           = map (\<lambda>s. (scatter_row s, scatter_col s)) (traces st)
             @ map (\<lambda>j. (j div 3 + 1, j mod 3 + 1)) [i ..< i + length (sid # sids)]"
    using ih by (simp add: st1 upt_conv_Cons del: upt_Suc)
  have p2: "map (\<lambda>s. Inr (scatter_y s, scatter_x s, marker_color s)) (traces st')
           = map (\<lambda>s. Inr (scatter_y s, scatter_x s, marker_color s)) (traces st)
             @ map (lookup_sample gd gene) (sid # sids)"
    using ih by (simp add: st1 s)
  have p3: "length (corr_scores st') = length (corr_scores st) + length (sid # sids)"
    using ih by (simp add: st1)
  have "rna_max st' = Max (insert (max (rna_max st) (Max (set r)))
                              (set (concat (map (sample_rna gd gene) sids))))"
    using ih by (simp add: st1)
  also have "\<dots> = Max (insert (rna_max st) (set (r @ concat (map (sample_rna gd gene) sids))))"
    using ne(1) by (rule Max_insert_max)
  finally have p4: "rna_max st'
      = Max (insert (rna_max st) (set (concat (map (sample_rna gd gene) (sid # sids)))))"
    by (simp add: sample_values [OF s])
  have "atac_max st' = Max (insert (max (atac_max st) (Max (set a)))
                              (set (concat (map (sample_atac gd gene) sids))))"
    using ih by (simp add: st1)
  also have "\<dots> = Max (insert (atac_max st) (set (a @ concat (map (sample_atac gd gene) sids))))"
    using ne(2) by (rule Max_insert_max)
  finally have p5: "atac_max st'
      = Max (insert (atac_max st) (set (concat (map (sample_atac gd gene) (sid # sids)))))"
    by (simp add: sample_values [OF s])
  have p6: "list_all (\<lambda>sid. sample_rna gd gene sid \<noteq> [] \<and> sample_atac gd gene sid \<noteq> []) (sid # sids)"
    using ih ne by (simp add: sample_values [OF s])
  from p1 p2 p3 p4 p5 p6 show ?case by blast
qed

lemma plot_genes_Inr:
  assumes "plot_genes cd gene gd = Inr fig"
  obtains st where "loop cd gd gene 0 (map fst timepoints) init_state = Inr st"
    and "fig = \<lparr> scatters = traces st,
                titles = zip (map snd timepoints) (corr_scores st),
                xaxes = map (\<lambda>i. \<lparr> axis_row = i div 3 + 1, axis_col = i mod 3 + 1,
                                    axis_range = (0, atac_max st) \<rparr>) [0 ..< length (corr_scores st)],
                yaxes = map (\<lambda>i. \<lparr> axis_row = i div 3 + 1, axis_col = i mod 3 + 1,
                                    axis_range = (0, rna_max st) \<rparr>) [0 ..< length (corr_scores st)] \<rparr>"
  using assms by (auto simp: plot_genes_def split: sum.splits)

lemma six: "[0 ..< (6::nat)] = [0, 1, 2, 3, 4, 5]"
  by (simp add: upt_conv_Cons)

lemma replicate_six: "replicate 6 v = [v, v, v, v, v, v]"
  by (simp add: numeral_eq_Suc)

lemma length_timepoints: "length timepoints = 6"
  by (simp add: timepoints_def)

lemma global_nonempty:
  assumes "list_all (\<lambda>sid. sample_rna gd gene sid \<noteq> [] \<and> sample_atac gd gene sid \<noteq> [])
             (map fst timepoints)"
  shows "global_rna_values gd gene \<noteq> []" "global_atac_values gd gene \<noteq> []"
  using assms by (simp_all add: global_rna_values_def global_atac_values_def timepoints_def)

text \<open>
  C6 (grid layout placement). In every figure \<open>plot_genes\<close> returns, the scatter of
  list-index \<open>i\<close> of the six timepoints sits at row \<open>i div 3 + 1\<close> and column
  \<open>i mod 3 + 1\<close>, that is at (1,1), (1,2), (1,3), (2,1), (2,2), (2,3) in order; it
  shows the data of the \<open>i\<close>-th sample identifier, and the axis updates address the
  same six cells.
\<close>

theorem grid_layout:
  assumes "plot_genes color_dict gene gd = Inr fig"
  shows "map (\<lambda>s. (scatter_row s, scatter_col s)) (scatters fig)
           = map (\<lambda>i. (i div 3 + 1, i mod 3 + 1)) [0 ..< 6]
       \<and> map (\<lambda>s. (scatter_row s, scatter_col s)) (scatters fig)
           = [(1, 1), (1, 2), (1, 3), (2, 1), (2, 2), (2, 3)]
       \<and> map (\<lambda>s. Inr (scatter_y s, scatter_x s, marker_color s)) (scatters fig)
           = map (lookup_sample gd gene) (map fst timepoints)
       \<and> map (\<lambda>u. (axis_row u, axis_col u)) (xaxes fig)
           = [(1, 1), (1, 2), (1, 3), (2, 1), (2, 2), (2, 3)]
       \<and> map (\<lambda>u. (axis_row u, axis_col u)) (yaxes fig)
           = [(1, 1), (1, 2), (1, 3), (2, 1), (2, 2), (2, 3)]"
proof -
  from assms obtain st where l: "loop color_dict gd gene 0 (map fst timepoints) init_state = Inr st"
    and fig: "fig = \<lparr> scatters = traces st,
                titles = zip (map snd timepoints) (corr_scores st),
                xaxes = map (\<lambda>i. \<lparr> axis_row = i div 3 + 1, axis_col = i mod 3 + 1,
                                    axis_range = (0, atac_max st) \<rparr>) [0 ..< length (corr_scores st)],
                yaxes = map (\<lambda>i. \<lparr> axis_row = i div 3 + 1, axis_col = i mod 3 + 1,
                                    axis_range = (0, rna_max st) \<rparr>) [0 ..< length (corr_scores st)] \<rparr>"
    by (rule plot_genes_Inr)
  note inv = loop_invariant [OF l]
  have n: "length (corr_scores st) = 6"
    using inv by (simp add: init_state_def length_timepoints)
  have a: "map (\<lambda>s. (scatter_row s, scatter_col s)) (scatters fig)
           = map (\<lambda>i. (i div 3 + 1, i mod 3 + 1)) [0 ..< 6]"
    using inv by (simp add: fig init_state_def length_timepoints del: upt_Suc)
  have b: "map (\<lambda>i. (i div 3 + 1, i mod 3 + 1)) [0 ..< (6::nat)]
           = [(1, 1), (1, 2), (1, 3), (2, 1), (2, 2), (2, 3::nat)]"
    by (simp add: six)
  have c: "map (\<lambda>s. Inr (scatter_y s, scatter_x s, marker_color s)) (scatters fig)
           = map (lookup_sample gd gene) (map fst timepoints)"
    using inv by (simp add: fig init_state_def)
  have d: "map (\<lambda>u. (axis_row u, axis_col u)) (xaxes fig)
           = [(1, 1), (1, 2), (1, 3), (2, 1), (2, 2), (2, 3)]"
    by (simp add: fig n six)
  have e: "map (\<lambda>u. (axis_row u, axis_col u)) (yaxes fig)
           = [(1, 1), (1, 2), (1, 3), (2, 1), (2, 2), (2, 3)]"
    by (simp add: fig n six)
  from a b c d e show ?thesis by simp
qed

text \<open>
  C3 (shared axis scaling), as amended. In every figure \<open>plot_genes\<close> returns, all six
  x-axes have the range from 0 to the larger of 0 and the global maximum accessibility
  value, and all six y-axes the range from 0 to the larger of 0 and the global maximum
  expression value, the maxima taken over all six timepoints' vectors of the gene. The
  running maxima start at 0, so the bound is the global maximum itself exactly when that
  maximum is not negative.
\<close>

theorem shared_axis_scaling:
  assumes "plot_genes color_dict gene gd = Inr fig"
  shows "map axis_range (xaxes fig)
           = replicate 6 (0, max 0 (Max (set (global_atac_values gd gene))))
       \<and> map axis_range (yaxes fig)
           = replicate 6 (0, max 0 (Max (set (global_rna_values gd gene))))
       \<and> global_atac_values gd gene \<noteq> [] \<and> global_rna_values gd gene \<noteq> []"
proof -
  from assms obtain st where l: "loop color_dict gd gene 0 (map fst timepoints) init_state = Inr st"
    and fig: "fig = \<lparr> scatters = traces st,
                titles = zip (map snd timepoints) (corr_scores st),
                xaxes = map (\<lambda>i. \<lparr> axis_row = i div 3 + 1, axis_col = i mod 3 + 1,
                                    axis_range = (0, atac_max st) \<rparr>) [0 ..< length (corr_scores st)],
                yaxes = map (\<lambda>i. \<lparr> axis_row = i div 3 + 1, axis_col = i mod 3 + 1,
                                    axis_range = (0, rna_max st) \<rparr>) [0 ..< length (corr_scores st)] \<rparr>"
    by (rule plot_genes_Inr)
  note inv = loop_invariant [OF l]
  have n: "length (corr_scores st) = 6"
    using inv by (simp add: init_state_def length_timepoints)
  from inv have ne: "global_rna_values gd gene \<noteq> []" "global_atac_values gd gene \<noteq> []"
    by (simp_all add: global_nonempty)
  have "atac_max st = Max (insert 0 (set (global_atac_values gd gene)))"
    using inv by (simp add: init_state_def global_atac_values_def)
  with ne have x: "atac_max st = max 0 (Max (set (global_atac_values gd gene)))"
    by simp
  have "rna_max st = Max (insert 0 (set (global_rna_values gd gene)))"
    using inv by (simp add: init_state_def global_rna_values_def)
  with ne have y: "rna_max st = max 0 (Max (set (global_rna_values gd gene)))"
    by simp
  have "map axis_range (xaxes fig) = replicate 6 (0, atac_max st)"
    by (simp add: fig n six replicate_six)
  moreover have "map axis_range (yaxes fig) = replicate 6 (0, rna_max st)"
    by (simp add: fig n six replicate_six)
  ultimately show ?thesis using x y ne by simp
qed

lemma example_grid_returns:
  "\<exists>fig. plot_genes [(''NMPs'', ''#8dd3c7''), (''PSM'', ''#008080'')] ''slc4a1a''
      (map_of [(''slc4a1a'', map_of
         [(''TDR126'', ([1, 2], [3, 1], [''#8dd3c7'', ''#008080''])),
          (''TDR127'', ([0, 0], [2, 5], [''#8dd3c7'', ''#8dd3c7''])),
          (''TDR128'', ([4], [1], [''#008080''])),
          (''TDR118'', ([1, 1], [2, 2], [''#8dd3c7'', ''#008080''])),
          (''TDR125'', ([2, 3], [7, 1], [''#008080'', ''#008080''])),
          (''TDR124'', ([0, 1], [1, 0], [''#8dd3c7'', ''#8dd3c7'']))])]) = Inr fig"
  by (simp add: plot_genes_def timepoints_def init_state_def loop_body_def lookup_sample_def
      correlation_def all_equal_first_def pearsonr_def np_max_def inv_color_dict_def)

theorem grid_layout_witness:
  "map_sum id (map (\<lambda>s. (scatter_row s, scatter_col s)) \<circ> scatters)
     (plot_genes [(''NMPs'', ''#8dd3c7''), (''PSM'', ''#008080'')] ''slc4a1a''
      (map_of [(''slc4a1a'', map_of
         [(''TDR126'', ([1, 2], [3, 1], [''#8dd3c7'', ''#008080''])),
          (''TDR127'', ([0, 0], [2, 5], [''#8dd3c7'', ''#8dd3c7''])),
          (''TDR128'', ([4], [1], [''#008080''])),
          (''TDR118'', ([1, 1], [2, 2], [''#8dd3c7'', ''#008080''])),
          (''TDR125'', ([2, 3], [7, 1], [''#008080'', ''#008080''])),
          (''TDR124'', ([0, 1], [1, 0], [''#8dd3c7'', ''#8dd3c7'']))])]))
   = Inr [(1, 1), (1, 2), (1, 3), (2, 1), (2, 2), (2, 3)]"
proof -
  from example_grid_returns obtain fig where
    f: "plot_genes [(''NMPs'', ''#8dd3c7''), (''PSM'', ''#008080'')] ''slc4a1a''
      (map_of [(''slc4a1a'', map_of
         [(''TDR126'', ([1, 2], [3, 1], [''#8dd3c7'', ''#008080''])),
          (''TDR127'', ([0, 0], [2, 5], [''#8dd3c7'', ''#8dd3c7''])),
          (''TDR128'', ([4], [1], [''#008080''])),
          (''TDR118'', ([1, 1], [2, 2], [''#8dd3c7'', ''#008080''])),
          (''TDR125'', ([2, 3], [7, 1], [''#008080'', ''#008080''])),
          (''TDR124'', ([0, 1], [1, 0], [''#8dd3c7'', ''#8dd3c7'']))])]) = Inr fig"
    by blast
  from grid_layout [OF f, THEN conjunct2, THEN conjunct1] show ?thesis
    by (simp only: f map_sum.simps comp_apply)
qed

theorem shared_axis_scaling_witness:
  "map_sum id (map axis_range \<circ> xaxes)
     (plot_genes [(''NMPs'', ''#8dd3c7''), (''PSM'', ''#008080'')] ''slc4a1a''
      (map_of [(''slc4a1a'', map_of
         [(''TDR126'', ([1, 2], [3, 1], [''#8dd3c7'', ''#008080''])),
          (''TDR127'', ([0, 0], [2, 5], [''#8dd3c7'', ''#8dd3c7''])),
          (''TDR128'', ([4], [1], [''#008080''])),
          (''TDR118'', ([1, 1], [2, 2], [''#8dd3c7'', ''#008080''])),
          (''TDR125'', ([2, 3], [7, 1], [''#008080'', ''#008080''])),
          (''TDR124'', ([0, 1], [1, 0], [''#8dd3c7'', ''#8dd3c7'']))])]))
   = Inr (replicate 6 (0, 7))
   \<and> map_sum id (map axis_range \<circ> yaxes)
     (plot_genes [(''NMPs'', ''#8dd3c7''), (''PSM'', ''#008080'')] ''slc4a1a''
      (map_of [(''slc4a1a'', map_of
         [(''TDR126'', ([1, 2], [3, 1], [''#8dd3c7'', ''#008080''])),
          (''TDR127'', ([0, 0], [2, 5], [''#8dd3c7'', ''#8dd3c7''])),
          (''TDR128'', ([4], [1], [''#008080''])),
          (''TDR118'', ([1, 1], [2, 2], [''#8dd3c7'', ''#008080''])),
          (''TDR125'', ([2, 3], [7, 1], [''#008080'', ''#008080''])),
          (''TDR124'', ([0, 1], [1, 0], [''#8dd3c7'', ''#8dd3c7'']))])]))
   = Inr (replicate 6 (0, 4))"
proof -
  let ?gd = "map_of [(''slc4a1a'', map_of
         [(''TDR126'', ([1, 2], [3, 1], [''#8dd3c7'', ''#008080''])),
          (''TDR127'', ([0, 0], [2, 5], [''#8dd3c7'', ''#8dd3c7''])),
          (''TDR128'', ([4], [1], [''#008080''])),
          (''TDR118'', ([1, 1], [2, 2], [''#8dd3c7'', ''#008080''])),
          (''TDR125'', ([2, 3], [7, 1], [''#008080'', ''#008080''])),
          (''TDR124'', ([0::real, 1], [1::real, 0], [''#8dd3c7'', ''#8dd3c7'']))])]"
  from example_grid_returns obtain fig where
    f: "plot_genes [(''NMPs'', ''#8dd3c7''), (''PSM'', ''#008080'')] ''slc4a1a'' ?gd = Inr fig"
    by blast
  have a: "max 0 (Max (set (global_atac_values ?gd ''slc4a1a''))) = 7"
    by (simp add: global_atac_values_def sample_atac_def lookup_sample_def timepoints_def)
  have r: "max 0 (Max (set (global_rna_values ?gd ''slc4a1a''))) = 4"
    by (simp add: global_rna_values_def sample_rna_def lookup_sample_def timepoints_def)
  from shared_axis_scaling [OF f] show ?thesis
    by (simp only: f map_sum.simps comp_apply a r)
qed

text \<open>
  C3 as stated fails where every value is negative: with six samples holding the single
  value \<open>-1\<close>, the global maximum accessibility is \<open>-1\<close> and every x-axis range is
  \<open>[0, 0]\<close>.
\<close>

theorem shared_axis_scaling_counterexample:
  "map_sum id (map axis_range \<circ> xaxes)
     (plot_genes [] ''g''
      (map_of [(''g'', map_of
         [(''TDR126'', ([- 1], [- 1], [])), (''TDR127'', ([- 1], [- 1], [])),
          (''TDR128'', ([- 1], [- 1], [])), (''TDR118'', ([- 1], [- 1], [])),
          (''TDR125'', ([- 1], [- 1], [])), (''TDR124'', ([- 1], [- 1], []))])]))
   = Inr (replicate 6 (0, 0))
   \<and> Max (set (global_atac_values
      (map_of [(''g'', map_of
         [(''TDR126'', ([- 1], [- 1], [])), (''TDR127'', ([- 1], [- 1], [])),
          (''TDR128'', ([- 1], [- 1], [])), (''TDR118'', ([- 1], [- 1], [])),
          (''TDR125'', ([- 1], [- 1], [])), (''TDR124'', ([- 1], [- 1], []))])]) ''g'')) = - 1"
  by (simp add: plot_genes_def timepoints_def init_state_def loop_body_def lookup_sample_def
      correlation_def all_equal_first_def np_max_def inv_color_dict_def replicate_six six
      global_atac_values_def sample_atac_def)

subsection \<open>Colours\<close>

lemma fold_inv:
  "fold (\<lambda>(k, v) m. m(v \<mapsto> k)) cd m = m ++ map_of (rev (map prod.swap cd))"
proof (induction cd arbitrary: m)
  case Nil
  then show ?case by simp
next
  case (Cons p cd)
  obtain k v where p: "p = (k, v)" by (cases p)
  have "fold (\<lambda>(k, v) m. m(v \<mapsto> k)) (p # cd) m
        = fold (\<lambda>(k, v) m. m(v \<mapsto> k)) cd (m(v \<mapsto> k))"
    by (simp add: p)
  also have "\<dots> = m(v \<mapsto> k) ++ map_of (rev (map prod.swap cd))"
    by (rule Cons.IH)
  also have "\<dots> = m ++ (map_of [(v, k)] ++ map_of (rev (map prod.swap cd)))"
    by (rule ext) (simp add: map_add_def split: option.splits)
  also have "map_of [(v, k)] ++ map_of (rev (map prod.swap cd))
             = map_of (rev (map prod.swap (p # cd)))"
    by (simp add: p)
  finally show ?case .
qed

lemma inv_color_dict_map_of: "inv_color_dict cd = map_of (rev (map prod.swap cd))"
  by (simp add: inv_color_dict_def fold_inv)

lemma inv_color_dict_None: "inv_color_dict cd col = None \<longleftrightarrow> col \<notin> snd ` set cd"
proof -
  have "fst ` set (rev (map prod.swap cd)) = snd ` set cd"
    by force
  then show ?thesis
    unfolding inv_color_dict_map_of map_of_eq_None_iff by simp
qed

lemma inv_color_dict_Some:
  assumes "distinct (map snd cd)" and "(cell, col) \<in> set cd"
  shows "inv_color_dict cd col = Some cell"
proof -
  have "distinct (map fst (rev (map prod.swap cd)))"
    using assms(1) by (simp add: rev_map [symmetric] comp_def distinct_rev)
  moreover have "(col, cell) \<in> set (rev (map prod.swap cd))"
    using assms(2) by force
  ultimately show ?thesis
    unfolding inv_color_dict_map_of by (rule map_of_is_SomeI)
qed

lemma type_colors_KeyError:
  "col \<in> set cols \<Longrightarrow> inv_colors col = None \<Longrightarrow> type_colors inv_colors cols = Inl KeyError"
proof (induction cols)
  case Nil
  then show ?case by simp
next
  case (Cons c cols)
  show ?case
  proof (cases "inv_colors c")
    case None
    then show ?thesis by simp
  next
    case (Some t)
    with Cons.prems have "col \<in> set cols" by auto
    with Cons.IH Cons.prems(2) have "type_colors inv_colors cols = Inl KeyError" by simp
    with Some show ?thesis by simp
  qed
qed

lemma getitem_palette:
  assumes "distinct (map fst cd)"
  shows "getitem cd cell = Inr col \<longleftrightarrow> (cell, col) \<in> set cd"
proof -
  have "map_of cd cell = Some col \<longleftrightarrow> (cell, col) \<in> set cd"
    using assms by (rule map_of_eq_Some_iff)
  then show ?thesis
    by (cases "map_of cd cell") (simp_all add: getitem_def)
qed

text \<open>
  C8 (colour and cell type round trip). For a palette that is a dictionary without a
  repeated colour: looking a cell type's colour up is injective on the palette's cell
  types; every entry's colour is mapped back to the entry's cell type by the inverse
  dictionary, also through the hover-text lookup; and a list of colours holding a colour
  that is not in the palette makes the hover-text lookup raise \<open>KeyError\<close>.
\<close>

theorem color_round_trip:
  assumes "palette color_dict"
  shows "inj_on (getitem color_dict) (fst ` set color_dict)
       \<and> ((cell, col) \<in> set color_dict \<longrightarrow>
            getitem color_dict cell = Inr col
          \<and> inv_color_dict color_dict col = Some cell
          \<and> type_colors (inv_color_dict color_dict) [col] = Inr [cell])
       \<and> (c \<in> set cols \<and> c \<notin> snd ` set color_dict \<longrightarrow>
            type_colors (inv_color_dict color_dict) cols = Inl KeyError)"
proof -
  from assms have dk: "distinct (map fst color_dict)" and dv: "distinct (map snd color_dict)"
    by (simp_all add: palette_def)
  have inj: "inj_on (getitem color_dict) (fst ` set color_dict)"
  proof (rule inj_onI)
    fix a b
    assume a: "a \<in> fst ` set color_dict" and b: "b \<in> fst ` set color_dict"
      and eq: "getitem color_dict a = getitem color_dict b"
    from a obtain ca where ca: "(a, ca) \<in> set color_dict" by force
    from b obtain cb where cb: "(b, cb) \<in> set color_dict" by force
    from ca cb eq have "ca = cb"
      by (simp add: getitem_palette [OF dk, THEN iffD2])
    have "inv_color_dict color_dict ca = Some a"
      using dv ca by (rule inv_color_dict_Some)
    moreover have "inv_color_dict color_dict cb = Some b"
      using dv cb by (rule inv_color_dict_Some)
    ultimately show "a = b" using \<open>ca = cb\<close> by simp
  qed
  have rt: "getitem color_dict cell = Inr col
          \<and> inv_color_dict color_dict col = Some cell
          \<and> type_colors (inv_color_dict color_dict) [col] = Inr [cell]"
    if "(cell, col) \<in> set color_dict"
    using that by (simp add: getitem_palette [OF dk] inv_color_dict_Some [OF dv])
  have ke: "type_colors (inv_color_dict color_dict) cols = Inl KeyError"
    if "c \<in> set cols \<and> c \<notin> snd ` set color_dict"
    using that by (auto intro: type_colors_KeyError simp: inv_color_dict_None)
  from inj rt ke show ?thesis by blast
qed

theorem color_round_trip_witness:
  "palette [(''NMPs'', ''#8dd3c7''), (''PSM'', ''#008080''), (''Somites'', ''#e6ab02'')]
   \<and> getitem [(''NMPs'', ''#8dd3c7''), (''PSM'', ''#008080''), (''Somites'', ''#e6ab02'')] ''PSM''
       = Inr ''#008080''
   \<and> type_colors (inv_color_dict
        [(''NMPs'', ''#8dd3c7''), (''PSM'', ''#008080''), (''Somites'', ''#e6ab02'')]) [''#008080'']
       = Inr [''PSM'']
   \<and> type_colors (inv_color_dict
        [(''NMPs'', ''#8dd3c7''), (''PSM'', ''#008080''), (''Somites'', ''#e6ab02'')])
        [''#8dd3c7'', ''#ffffff''] = Inl KeyError"
proof -
  let ?cd = "[(''NMPs'', ''#8dd3c7''), (''PSM'', ''#008080''), (''Somites'', ''#e6ab02'')]"
  have p: "palette ?cd" by (simp add: palette_def)
  have m: "(''PSM'', ''#008080'') \<in> set ?cd" by simp
  have k: "''#ffffff'' \<in> set [''#8dd3c7'', ''#ffffff''] \<and> ''#ffffff'' \<notin> snd ` set ?cd"
    by simp
  note r = color_round_trip
    [OF p, of "''PSM''" "''#008080''" "''#ffffff''" "[''#8dd3c7'', ''#ffffff'']"]
  note r2 = r [THEN conjunct2, THEN conjunct1, THEN mp, OF m]
  note r3 = r [THEN conjunct2, THEN conjunct2, THEN mp, OF k]
  from r2 have a: "getitem ?cd ''PSM'' = Inr ''#008080''"
    and b: "type_colors (inv_color_dict ?cd) [''#008080''] = Inr [''PSM'']"
    by (rule conjunct1, rule conjunct2 [THEN conjunct2])
  from p a b r3 show ?thesis
    by (intro conjI)
qed

subsection \<open>The guard before the coefficient\<close>

lemma correlation_first_constant:
  assumes "expr_rna \<noteq> []" and "list_all (\<lambda>a. a = hd expr_rna) expr_rna"
  shows "correlation expr_rna expr_atac = Inr NaN"
  using assms by (cases expr_rna) (simp_all add: correlation_def all_equal_first_def)

lemma correlation_second_constant:
  assumes "expr_rna \<noteq> []" and "expr_atac \<noteq> []" and "list_all (\<lambda>a. a = hd expr_atac) expr_atac"
  shows "correlation expr_rna expr_atac = Inr NaN"
proof (cases "list_all (\<lambda>a. a = hd expr_rna) expr_rna")
  case True
  with assms(1) show ?thesis by (rule correlation_first_constant)
next
  case False
  with assms show ?thesis
    by (cases expr_rna; cases expr_atac) (simp_all add: correlation_def all_equal_first_def)
qed

lemma singleton_constant:
  assumes "length v = 1"
  shows "v \<noteq> [] \<and> list_all (\<lambda>a. a = hd v) v"
proof -
  from assms have "length v = Suc 0" by simp
  then obtain a where "v = [a]"
    by (auto simp: length_Suc_conv)
  then show ?thesis by simp
qed

text \<open>
  C9 (single observation). When the expression vector has length 1, or the
  accessibility vector has length 1 and the expression vector is not empty (as it is
  whenever the two are aligned), the guard answers the not-a-number sentinel; the
  library's coefficient would have raised on that input, so it was not called.
\<close>

theorem single_observation:
  assumes "length expr_rna = 1 \<or> (expr_rna \<noteq> [] \<and> length expr_atac = 1)"
  shows "correlation expr_rna expr_atac = Inr NaN
       \<and> pearsonr expr_rna expr_atac = Inl ValueError"
proof -
  have c: "correlation expr_rna expr_atac = Inr NaN"
    using assms
  proof
    assume "length expr_rna = 1"
    then have "expr_rna \<noteq> [] \<and> list_all (\<lambda>a. a = hd expr_rna) expr_rna"
      by (rule singleton_constant)
    then show ?thesis by (simp add: correlation_first_constant)
  next
    assume a: "expr_rna \<noteq> [] \<and> length expr_atac = 1"
    then have "expr_atac \<noteq> [] \<and> list_all (\<lambda>a. a = hd expr_atac) expr_atac"
      by (simp add: singleton_constant)
    with a show ?thesis by (simp add: correlation_second_constant)
  qed
  have "length expr_rna \<noteq> length expr_atac \<or> length expr_rna < 2"
    using assms by linarith
  then have p: "pearsonr expr_rna expr_atac = Inl ValueError"
    by (simp add: pearsonr_def)
  from c p show ?thesis by simp
qed

theorem single_observation_witness:
  "correlation [5] [3] = Inr NaN \<and> correlation [5] [3, 4] = Inr NaN
   \<and> correlation [1, 2] [3] = Inr NaN \<and> pearsonr [5] [3] = Inl ValueError"
proof -
  have a: "length [5::real] = 1 \<or> ([5::real] \<noteq> [] \<and> length [3::real] = 1)" by simp
  have b: "length [5::real] = 1 \<or> ([5::real] \<noteq> [] \<and> length [3::real, 4] = 1)" by simp
  have c: "length [1::real, 2] = 1 \<or> ([1::real, 2] \<noteq> [] \<and> length [3::real] = 1)" by simp
  from single_observation [OF a] single_observation [OF b] single_observation [OF c]
  show ?thesis by simp
qed

subsection \<open>The Pearson coefficient\<close>

lemma dot_Nil [simp]: "dot [] v = 0" "dot u [] = 0"
  by (simp_all add: dot_def)

lemma dot_Cons [simp]: "dot (x # u) (y # v) = x * y + dot u v"
  by (simp add: dot_def)

lemma dot_self_nonneg: "0 \<le> dot u u"
  by (induction u) simp_all

lemma step_bound:
  fixes a A B x y :: real
  assumes "a\<^sup>2 \<le> A * B" and "0 \<le> A" and "0 \<le> B"
  shows "(x * y + a)\<^sup>2 \<le> (x * x + A) * (y * y + B)"
proof -
  have sq: "(2 * a * x * y)\<^sup>2 \<le> (A * y\<^sup>2 + B * x\<^sup>2)\<^sup>2"
  proof -
    have "(2 * a * x * y)\<^sup>2 = 4 * a\<^sup>2 * (x\<^sup>2 * y\<^sup>2)"
      by (simp add: power2_eq_square)
    also have "\<dots> \<le> 4 * (A * B) * (x\<^sup>2 * y\<^sup>2)"
      using assms(1) by (intro mult_right_mono mult_left_mono) simp_all
    also have "\<dots> = 4 * ((A * y\<^sup>2) * (B * x\<^sup>2))"
      by simp
    also have "\<dots> \<le> (A * y\<^sup>2 + B * x\<^sup>2)\<^sup>2"
    proof -
      have "0 \<le> (A * y\<^sup>2 - B * x\<^sup>2)\<^sup>2" by simp
      then show ?thesis by (simp add: power2_eq_square algebra_simps)
    qed
    finally show ?thesis .
  qed
  have "0 \<le> A * y\<^sup>2 + B * x\<^sup>2"
    using assms(2,3) by simp
  with sq have "2 * a * x * y \<le> A * y\<^sup>2 + B * x\<^sup>2"
    by (rule power2_le_imp_le)
  with assms(1) show ?thesis
    by (simp add: power2_eq_square algebra_simps)
qed

lemma cauchy_schwarz:
  assumes "length u = length v"
  shows "(dot u v)\<^sup>2 \<le> dot u u * dot v v"
  using assms
proof (induction u v rule: list_induct2)
  case Nil
  then show ?case by simp
next
  case (Cons x u y v)
  from Cons.IH dot_self_nonneg [of u] dot_self_nonneg [of v]
  show ?case by (simp add: step_bound)
qed

lemma pearson_r_bounds:
  assumes "length x = length y"
  shows "- 1 \<le> pearson_r x y \<and> pearson_r x y \<le> 1"
proof -
  let ?d = "dot (centred x) (centred y)"
  let ?p = "dot (centred x) (centred x) * dot (centred y) (centred y)"
  have "length (centred x) = length (centred y)"
    using assms by (simp add: centred_def)
  then have "?d\<^sup>2 \<le> ?p" by (rule cauchy_schwarz)
  then have "sqrt (?d\<^sup>2) \<le> sqrt ?p" by (rule real_sqrt_le_mono)
  then have le: "\<bar>?d\<bar> \<le> sqrt ?p" by simp
  have "\<bar>?d / sqrt ?p\<bar> \<le> 1"
  proof (cases "sqrt ?p = 0")
    case True
    show ?thesis unfolding True by simp
  next
    case False
    moreover have "0 \<le> sqrt ?p"
      using le by linarith
    ultimately have "0 < sqrt ?p" by linarith
    with le show ?thesis by (simp add: abs_divide)
  qed
  then have "- 1 \<le> ?d / sqrt ?p \<and> ?d / sqrt ?p \<le> 1"
    by linarith
  then show ?thesis
    unfolding pearson_r_def .
qed

lemma sum_list_nonneg_pos:
  fixes f :: "real \<Rightarrow> real"
  assumes "\<And>a. 0 \<le> f a" and "b \<in> set v" and "0 < f b"
  shows "0 < sum_list (map f v)"
  using assms(2)
proof (induction v)
  case Nil
  then show ?case by simp
next
  case (Cons c v)
  have nn: "0 \<le> sum_list (map f v)"
    by (rule sum_list_nonneg) (auto simp: assms(1))
  show ?case
  proof (cases "b = c")
    case True
    with assms(3) nn show ?thesis by simp
  next
    case False
    with Cons have "0 < sum_list (map f v)" by simp
    with assms(1) [of c] show ?thesis by simp
  qed
qed

lemma dot_self_sum: "dot u u = sum_list (map (\<lambda>a. a * a) u)"
  by (induction u) simp_all

lemma dot_centred_self: "dot (centred v) (centred v) = sum_list (map (\<lambda>a. (a - mean v) * (a - mean v)) v)"
  by (simp add: dot_self_sum centred_def comp_def)

lemma variance_pos:
  assumes "\<not> list_all (\<lambda>a. a = hd v) v"
  shows "0 < dot (centred v) (centred v)"
proof -
  from assms obtain b where b: "b \<in> set v" "b \<noteq> hd v"
    by (auto simp: list_all_iff)
  then have ne: "v \<noteq> []" by auto
  then have h: "hd v \<in> set v" by simp
  have "\<exists>c \<in> set v. c \<noteq> mean v"
  proof (cases "b = mean v")
    case True
    with b(2) have "hd v \<noteq> mean v" by simp
    with h show ?thesis by (rule bexI [rotated])
  next
    case False
    with b(1) show ?thesis by (rule bexI [rotated])
  qed
  then obtain c where c: "c \<in> set v" "c \<noteq> mean v" by blast
  have "0 < sum_list (map (\<lambda>a. (a - mean v) * (a - mean v)) v)"
  proof (rule sum_list_nonneg_pos [where b = c])
    show "0 \<le> (a - mean v) * (a - mean v)" for a by simp
    show "c \<in> set v" by (rule c(1))
    from c(2) show "0 < (c - mean v) * (c - mean v)"
      by (simp add: zero_less_mult_iff) linarith
  qed
  then show ?thesis by (simp add: dot_centred_self)
qed

lemma sum_list_affine:
  fixes a b :: real
  shows "sum_list (map (\<lambda>t. a * t + b) v) = a * sum_list v + b * real (length v)"
  by (induction v) (simp_all add: algebra_simps)

lemma mean_affine:
  assumes "v \<noteq> []"
  shows "mean (map (\<lambda>t. a * t + b) v) = a * mean v + b"
proof -
  from assms have "real (length v) \<noteq> 0" by simp
  then show ?thesis
    by (simp add: mean_def sum_list_affine add_divide_distrib)
qed

lemma centred_affine:
  assumes "v \<noteq> []"
  shows "centred (map (\<lambda>t. a * t + b) v) = map (\<lambda>t. a * t) (centred v)"
  unfolding centred_def mean_affine [OF assms]
  by (simp add: comp_def algebra_simps)

lemma dot_scale_right: "dot u (map (\<lambda>t. a * t) v) = a * dot u v"
proof (induction u arbitrary: v)
  case Nil
  then show ?case by simp
next
  case (Cons x u)
  then show ?case by (cases v) (simp_all add: algebra_simps)
qed

lemma dot_scale_left: "dot (map (\<lambda>t. a * t) u) v = a * dot u v"
proof (induction u arbitrary: v)
  case Nil
  then show ?case by simp
next
  case (Cons x u)
  then show ?case by (cases v) (simp_all add: algebra_simps)
qed

lemma pearson_r_affine:
  assumes "a \<noteq> 0" and "\<not> list_all (\<lambda>t. t = hd x) x"
  shows "pearson_r x (map (\<lambda>t. a * t + b) x) = sgn a"
proof -
  let ?S = "dot (centred x) (centred x)"
  from assms(2) have S: "0 < ?S" by (rule variance_pos)
  from assms(2) have ne: "x \<noteq> []" by auto
  have c: "centred (map (\<lambda>t. a * t + b) x) = map (\<lambda>t. a * t) (centred x)"
    using ne by (rule centred_affine)
  have "?S * (a * (a * ?S)) = (a * ?S)\<^sup>2"
    by (simp add: power2_eq_square)
  then have "sqrt (?S * (a * (a * ?S))) = \<bar>a * ?S\<bar>"
    by simp
  also have "\<dots> = \<bar>a\<bar> * ?S"
    using S by (simp add: abs_mult)
  finally have d: "sqrt (?S * (a * (a * ?S))) = \<bar>a\<bar> * ?S" .
  have "pearson_r x (map (\<lambda>t. a * t + b) x) = (a * ?S) / (\<bar>a\<bar> * ?S)"
    unfolding pearson_r_def c dot_scale_right dot_scale_left d ..
  also have "\<dots> = sgn a"
    using S assms(1) by (simp add: sgn_real_def)
  finally show ?thesis .
qed

lemma constant_affine:
  fixes a b :: real
  assumes "a \<noteq> 0"
  shows "list_all (\<lambda>t. t = hd (map (\<lambda>t. a * t + b) x)) (map (\<lambda>t. a * t + b) x)
         \<longleftrightarrow> list_all (\<lambda>t. t = hd x) x"
  using assms by (cases x) (simp_all add: list_all_iff)

lemma all_equal_first_Cons:
  "v \<noteq> [] \<Longrightarrow> all_equal_first v = Inr (list_all (\<lambda>a. a = hd v) v)"
  by (cases v) (simp_all add: all_equal_first_def)

lemma correlation_aligned:
  assumes "expr_rna \<noteq> []" and "length expr_atac = length expr_rna"
  shows "correlation expr_rna expr_atac =
           (if list_all (\<lambda>a. a = hd expr_rna) expr_rna \<or> list_all (\<lambda>a. a = hd expr_atac) expr_atac
            then Inr NaN else Inr (Finite (pearson_r expr_rna expr_atac)))"
proof -
  from assms have ne: "expr_atac \<noteq> []" by auto
  show ?thesis
  proof (cases "list_all (\<lambda>a. a = hd expr_rna) expr_rna")
    case True
    with assms(1) show ?thesis by (simp add: correlation_first_constant)
  next
    case rna: False
    show ?thesis
    proof (cases "list_all (\<lambda>a. a = hd expr_atac) expr_atac")
      case True
      with assms(1) ne show ?thesis by (simp add: correlation_second_constant)
    next
      case atac: False
      from rna obtain r0 r1 rs where "expr_rna = r0 # r1 # rs"
        by (cases expr_rna; cases "tl expr_rna") auto
      then have len: "\<not> length expr_rna < 2" by simp
      have "correlation expr_rna expr_atac = pearsonr expr_rna expr_atac"
        using rna atac by (simp add: correlation_def all_equal_first_Cons assms(1) ne)
      also have "\<dots> = Inr (Finite (pearson_r expr_rna expr_atac))"
        using rna atac len assms(2) by (simp add: pearsonr_def)
      finally show ?thesis using rna atac by simp
    qed
  qed
qed

text \<open>
  C1 (correlation computation). For aligned, non-empty vectors: when either vector has
  every value equal to its first, the score is the not-a-number sentinel, a value distinct
  from every number and so from zero; otherwise it is the Pearson coefficient of the two
  vectors, whose denominator is then positive. The coefficient lies in \<open>[-1, 1]\<close>. An
  accessibility vector that is the image \<open>k * t + b\<close> of a non-constant expression
  vector scores exactly 1 when \<open>k\<close> is positive and exactly \<open>-1\<close> when it is negative,
  hence \<open>1.00\<close> and \<open>-1.00\<close> to two decimals.
\<close>

theorem correlation_contract:
  assumes "expr_rna \<noteq> []" and "length expr_atac = length expr_rna"
  shows "correlation expr_rna expr_atac =
           (if list_all (\<lambda>a. a = hd expr_rna) expr_rna \<or> list_all (\<lambda>a. a = hd expr_atac) expr_atac
            then Inr NaN else Inr (Finite (pearson_r expr_rna expr_atac)))
       \<and> - 1 \<le> pearson_r expr_rna expr_atac \<and> pearson_r expr_rna expr_atac \<le> 1
       \<and> (\<not> list_all (\<lambda>a. a = hd expr_rna) expr_rna \<and> \<not> list_all (\<lambda>a. a = hd expr_atac) expr_atac
            \<longrightarrow> 0 < dot (centred expr_rna) (centred expr_rna)
                     * dot (centred expr_atac) (centred expr_atac))
       \<and> (\<not> list_all (\<lambda>a. a = hd expr_rna) expr_rna \<and> expr_atac = map (\<lambda>t. k * t + b) expr_rna
            \<longrightarrow> correlation expr_rna expr_atac =
                  (if 0 < k then Inr (Finite 1) else if k < 0 then Inr (Finite (- 1)) else Inr NaN))"
proof -
  note c = correlation_aligned [OF assms]
  have bounds: "- 1 \<le> pearson_r expr_rna expr_atac \<and> pearson_r expr_rna expr_atac \<le> 1"
    using assms(2) by (simp add: pearson_r_bounds)
  have pos: "0 < dot (centred expr_rna) (centred expr_rna)
                 * dot (centred expr_atac) (centred expr_atac)"
    if "\<not> list_all (\<lambda>a. a = hd expr_rna) expr_rna \<and> \<not> list_all (\<lambda>a. a = hd expr_atac) expr_atac"
    using that by (simp add: variance_pos)
  have lin: "correlation expr_rna expr_atac =
               (if 0 < k then Inr (Finite 1) else if k < 0 then Inr (Finite (- 1)) else Inr NaN)"
    if h: "\<not> list_all (\<lambda>a. a = hd expr_rna) expr_rna \<and> expr_atac = map (\<lambda>t. k * t + b) expr_rna"
  proof (cases "k = 0")
    case True
    with h have "list_all (\<lambda>a. a = hd expr_atac) expr_atac"
      using assms(1) by (cases expr_rna) (simp_all add: list_all_iff)
    with c True show ?thesis by simp
  next
    case False
    with h have nc: "\<not> list_all (\<lambda>a. a = hd expr_atac) expr_atac"
      by (simp add: constant_affine)
    from False h have "pearson_r expr_rna expr_atac = sgn k"
      by (simp add: pearson_r_affine)
    with c h nc False show ?thesis
      by (simp add: sgn_real_def)
  qed
  from c bounds pos lin show ?thesis
    by (intro conjI impI) simp_all
qed

theorem correlation_contract_witness:
  "correlation [1, 2, 3] [2, 4, 6] = Inr (Finite 1)
   \<and> correlation [1, 2, 3] [3, 2, 1] = Inr (Finite (- 1))
   \<and> correlation [5, 5, 5] [7, 7, 7] = Inr NaN
   \<and> correlation [5, 5, 5] [7, 7, 7] \<noteq> Inr (Finite 0)
   \<and> correlation [1, 2, 3] [1, 3, 2] = Inr (Finite (1 / 2))"
proof -
  have n: "[1, 2, 3] \<noteq> ([]::real list)" "[5, 5, 5] \<noteq> ([]::real list)" by simp_all
  have l: "length [2::real, 4, 6] = length [1::real, 2, 3]"
    "length [3::real, 2, 1] = length [1::real, 2, 3]"
    "length [7::real, 7, 7] = length [5::real, 5, 5]"
    "length [1::real, 3, 2] = length [1::real, 2, 3]" by simp_all
  have nc: "\<not> list_all (\<lambda>a. a = hd [1::real, 2, 3]) [1, 2, 3]" by simp
  have up: "[2::real, 4, 6] = map (\<lambda>t. 2 * t + 0) [1, 2, 3]" by simp
  have down: "[3::real, 2, 1] = map (\<lambda>t. (- 1) * t + 4) [1, 2, 3]" by simp
  note line = conjunct2 [THEN conjunct2, THEN conjunct2, THEN conjunct2, THEN mp]
  have a: "correlation [1, 2, 3] [2, 4, 6] = Inr (Finite 1)"
    using correlation_contract [OF n(1) l(1), of 2 0, THEN line, OF conjI [OF nc up]]
    by simp
  have b: "correlation [1, 2, 3] [3, 2, 1] = Inr (Finite (- 1))"
    using correlation_contract [OF n(1) l(2), of "- 1" 4, THEN line, OF conjI [OF nc down]]
    by simp
  have c: "correlation [5, 5, 5] [7, 7, 7] = Inr NaN"
    using correlation_contract [OF n(2) l(3)] by simp
  have p: "pearson_r [1, 2, 3] [1, 3, 2] = 1 / 2"
    by (simp add: pearson_r_def centred_def mean_def)
  have d: "correlation [1, 2, 3] [1, 3, 2] = Inr (Finite (1 / 2))"
    using correlation_contract [OF n(1) l(4)] p by simp
  from a b c d show ?thesis by simp
qed

subsection \<open>The grid is returned on well-formed data\<close>

text \<open>
  When every one of the six samples is present with a non-empty expression vector, an
  accessibility vector of the same length and colours of the palette only, no step of
  \<open>plot_genes\<close> raises.
\<close>

lemma type_colors_Inr:
  assumes "set cols \<subseteq> snd ` set cd"
  shows "\<exists>ts. type_colors (inv_color_dict cd) cols = Inr ts"
  using assms
proof (induction cols)
  case Nil
  then show ?case by simp
next
  case (Cons c cols)
  then have "c \<in> snd ` set cd" by simp
  then have "inv_color_dict cd c \<noteq> None"
    by (simp add: inv_color_dict_None)
  then obtain t where t: "inv_color_dict cd c = Some t" by blast
  from Cons obtain ts where "type_colors (inv_color_dict cd) cols = Inr ts" by auto
  with t show ?case by simp
qed

lemma loop_body_returns:
  assumes "lookup_sample gd gene sid = Inr (r, a, c)"
    and "r \<noteq> []" and "length a = length r" and "set c \<subseteq> snd ` set cd"
  shows "\<exists>st'. loop_body cd gd gene i sid st = Inr st'"
proof -
  from assms(2,3) have ne: "a \<noteq> []" by auto
  have "\<exists>sc. correlation r a = Inr sc"
    unfolding correlation_aligned [OF assms(2,3)] by (simp split: if_splits)
  then obtain sc where sc: "correlation r a = Inr sc" ..
  from assms(4) obtain ts where ts: "type_colors (inv_color_dict cd) c = Inr ts"
    using type_colors_Inr by blast
  from assms(2) obtain mr where mr: "np_max r = Inr mr"
    by (cases r) (simp_all add: np_max_def)
  from ne obtain ma where ma: "np_max a = Inr ma"
    by (cases a) (simp_all add: np_max_def)
  show ?thesis
    by (simp add: loop_body_def assms(1) sc ts mr ma)
qed

lemma loop_returns:
  assumes "\<And>sid. sid \<in> set sids \<Longrightarrow>
             \<exists>r a c. lookup_sample gd gene sid = Inr (r, a, c) \<and> r \<noteq> []
                     \<and> length a = length r \<and> set c \<subseteq> snd ` set cd"
  shows "\<exists>st'. loop cd gd gene i sids st = Inr st'"
  using assms
proof (induction sids arbitrary: i st)
  case Nil
  then show ?case by simp
next
  case (Cons sid sids)
  from Cons.prems [of sid] obtain r a c where
    "lookup_sample gd gene sid = Inr (r, a, c)" "r \<noteq> []" "length a = length r"
    "set c \<subseteq> snd ` set cd"
    by auto
  then obtain st1 where b: "loop_body cd gd gene i sid st = Inr st1"
    using loop_body_returns by blast
  have "\<exists>st'. loop cd gd gene (Suc i) sids st1 = Inr st'"
    by (rule Cons.IH) (simp add: Cons.prems)
  with b show ?case by simp
qed

lemma plot_genes_returns:
  assumes "\<And>sid. sid \<in> set (map fst timepoints) \<Longrightarrow>
             \<exists>r a c. lookup_sample gd gene sid = Inr (r, a, c) \<and> r \<noteq> []
                     \<and> length a = length r \<and> set c \<subseteq> snd ` set color_dict"
  shows "\<exists>fig. plot_genes color_dict gene gd = Inr fig"
proof -
  from assms obtain st where "loop color_dict gd gene 0 (map fst timepoints) init_state = Inr st"
    using loop_returns by blast
  then show ?thesis by (simp add: plot_genes_def)
qed

end
